theory Spec2Isabelle
  imports Complex_Main
begin

section \<open>Python values\<close>

text \<open>
  The signal engine of \<^verbatim>\<open>main.py\<close> computes with Python floats. A float is modelled by
  the real number it denotes, extended by \<^verbatim>\<open>nan\<close>. Comparisons of a float with a
  threshold, which is all the evaluator does with one, are exact on these values. The
  arithmetic inside \<^verbatim>\<open>calculate_rsi_sma\<close> is idealised: rounding, underflow and the
  wrap-around of integer arrays are not modelled, and no statement of this theory
  depends on the number that the function computes, only on whether it returns \<^verbatim>\<open>None\<close>.
  A cache entry or a result that is Python's \<^verbatim>\<open>None\<close> is the \<open>None\<close> of an option type.
\<close>

datatype pyfloat = Num real | NaN

text \<open>The exceptions that the evaluator and the orchestrator can raise.\<close>

datatype exn = TypeError | KeyError | IndexError | AttributeError

section \<open>Indicator Calculator: \<^verbatim>\<open>calculate_rsi_sma\<close>\<close>

text \<open>\<^verbatim>\<open>np.diff(prices)\<close>: \<open>out[i] = prices[i+1] - prices[i]\<close>.\<close>

fun np_diff :: "real list \<Rightarrow> real list" where
  "np_diff (a # b # xs) = (b - a) # np_diff (b # xs)"
| "np_diff xs = []"

text \<open>\<^verbatim>\<open>np.where(diffs > 0, diffs, 0)\<close> and \<^verbatim>\<open>np.where(diffs < 0, np.abs(diffs), 0)\<close>.\<close>

definition ups_of :: "real list \<Rightarrow> real list" where
  "ups_of ds = map (\<lambda>d. if d > 0 then d else 0) ds"

definition downs_of :: "real list \<Rightarrow> real list" where
  "downs_of ds = map (\<lambda>d. if d < 0 then \<bar>d\<bar> else 0) ds"

text \<open>
  The Python slice \<^verbatim>\<open>xs[k:]\<close>: a negative \<open>k\<close> counts from the end (clipped at the start
  of the list), a non-negative \<open>k\<close> from the start. The source slices with \<^verbatim>\<open>-(window)\<close>,
  so a window of \<open>0\<close> selects the whole list, not the empty one.
\<close>

definition py_slice_from :: "int \<Rightarrow> 'a list \<Rightarrow> 'a list" where
  "py_slice_from k xs =
     (if k < 0 then drop (nat (int (length xs) + k)) xs else drop (nat k) xs)"

text \<open>\<^verbatim>\<open>np.mean\<close>: the arithmetic mean; \<^verbatim>\<open>nan\<close> on an empty array.\<close>

definition np_mean :: "real list \<Rightarrow> pyfloat" where
  "np_mean xs = (if xs = [] then NaN else Num (sum_list xs / real (length xs)))"

text \<open>
  \<^verbatim>\<open>calculate_rsi_sma(prices, window)\<close>. \<open>None\<close> is the early \<^verbatim>\<open>return None\<close>.
  Both means are taken over slices of the same length, so they are numbers together or
  \<^verbatim>\<open>nan\<close> together; with \<^verbatim>\<open>nan\<close> the test \<^verbatim>\<open>avg_down == 0\<close> is false and the
  arithmetic that follows yields \<^verbatim>\<open>nan\<close>.
\<close>

definition calculate_rsi_sma :: "real list \<Rightarrow> int \<Rightarrow> pyfloat option" where
  "calculate_rsi_sma prices w =
     (if int (length prices) < w + 1 then None
      else
        let ds = np_diff prices;
            ups = ups_of ds;
            downs = downs_of ds
        in (case (np_mean (py_slice_from (- w) ups), np_mean (py_slice_from (- w) downs)) of
              (Num avg_up, Num avg_down) \<Rightarrow>
                 if avg_down = 0 then Some (Num 100)
                 else
                   let rs = avg_up / avg_down;
                       rsi = 100 - (100 / (1 + rs))
                   in Some (Num rsi)
            | _ \<Rightarrow> Some NaN))"

section \<open>Indicator cache\<close>

text \<open>
  The global \<^verbatim>\<open>rsi_cache\<close>: a dict from \<open>(ticker, window)\<close> to what
  \<^verbatim>\<open>calculate_rsi_sma\<close> returned, a float or \<^verbatim>\<open>None\<close>. An absent key is the outer
  \<open>None\<close>, a stored \<^verbatim>\<open>None\<close> is \<open>Some None\<close>.
\<close>

type_synonym cache = "string \<times> int \<Rightarrow> pyfloat option option"

text \<open>\<^verbatim>\<open>get_rsi\<close>: \<^verbatim>\<open>rsi_cache.get((ticker, window), 0)\<close>.\<close>

definition get_rsi :: "cache \<Rightarrow> string \<Rightarrow> int \<Rightarrow> pyfloat option" where
  "get_rsi rsi_cache t w = (case rsi_cache (t, w) of None \<Rightarrow> Some (Num 0) | Some v \<Rightarrow> v)"

text \<open>
  The comparisons \<^verbatim>\<open>value > threshold\<close> and \<^verbatim>\<open>value < threshold\<close> of Python 3:
  \<^verbatim>\<open>None\<close> is not ordered against a number (\<^verbatim>\<open>TypeError\<close>), and every comparison
  with \<^verbatim>\<open>nan\<close> is false.
\<close>

fun py_gt :: "pyfloat option \<Rightarrow> real \<Rightarrow> exn + bool" where
  "py_gt None t = Inl TypeError"
| "py_gt (Some NaN) t = Inr False"
| "py_gt (Some (Num x)) t = Inr (x > t)"

fun py_lt :: "pyfloat option \<Rightarrow> real \<Rightarrow> exn + bool" where
  "py_lt None t = Inl TypeError"
| "py_lt (Some NaN) t = Inr False"
| "py_lt (Some (Num x)) t = Inr (x < t)"

section \<open>Formatting with \<^verbatim>\<open>:.2f\<close>\<close>

definition digit_char :: "nat \<Rightarrow> char" where
  "digit_char d = ''0123456789'' ! (d mod 10)"

fun string_of_nat :: "nat \<Rightarrow> string" where
  "string_of_nat n =
     (if n < 10 then [digit_char n] else string_of_nat (n div 10) @ [digit_char (n mod 10)])"

declare string_of_nat.simps [simp del]

text \<open>Rounding to the nearest integer, ties to the even one.\<close>

definition round_half_even :: "real \<Rightarrow> int" where
  "round_half_even x =
     (let f = \<lfloor>x\<rfloor>; r = x - of_int f
      in if r < 1 / 2 then f else if r > 1 / 2 then f + 1 else if even f then f else f + 1)"

text \<open>
  \<^verbatim>\<open>f"{x:.2f}"\<close>: sign, integer part, point, two digits. \<^verbatim>\<open>None\<close> has no such format:
  the callers below raise \<^verbatim>\<open>TypeError\<close> before they come here.
\<close>

definition format_2f_real :: "real \<Rightarrow> string" where
  "format_2f_real x =
     (let n = nat (round_half_even (\<bar>x\<bar> * 100))
      in (if x < 0 then ''-'' else []) @ string_of_nat (n div 100) @ ''.''
         @ [digit_char (n mod 100 div 10), digit_char (n mod 10)])"

fun format_2f :: "pyfloat \<Rightarrow> string" where
  "format_2f (Num x) = format_2f_real x"
| "format_2f NaN = ''nan''"

section \<open>Tie-break Resolver: \<^verbatim>\<open>execute_special_logic_35\<close>\<close>

definition tickers_to_check :: "string list" where
  "tickers_to_check = [''SOXL'', ''TECL'', ''TQQQ'', ''FNGU'']"

text \<open>
  The \<^verbatim>\<open>for\<close> loop: look each ticker up, append the pair, print the value with
  \<^verbatim>\<open>:.2f\<close>, which raises \<^verbatim>\<open>TypeError\<close> on \<^verbatim>\<open>None\<close>.
\<close>

fun collect_rsi :: "cache \<Rightarrow> string list \<Rightarrow> (string \<times> pyfloat) list
    \<Rightarrow> exn + (string \<times> pyfloat) list" where
  "collect_rsi rsi_cache [] rsi_values = Inr rsi_values"
| "collect_rsi rsi_cache (t # ts) rsi_values =
     (case get_rsi rsi_cache t 9 of
        None \<Rightarrow> Inl TypeError
      | Some rsi \<Rightarrow> collect_rsi rsi_cache ts (rsi_values @ [(t, rsi)]))"

text \<open>
  \<^verbatim>\<open>rsi_values.sort(key=lambda x: x[1])\<close>. Python's sort is stable and compares keys
  with \<open><\<close> only. On keys that \<open><\<close> orders totally (no \<^verbatim>\<open>nan\<close>) its result is the one
  stable ascending arrangement, which the insertion sort below computes; where a key is
  \<^verbatim>\<open>nan\<close> the arrangement CPython leaves depends on its merge strategy, and no statement
  of this theory concerns it.
\<close>

fun key_lt :: "pyfloat \<Rightarrow> pyfloat \<Rightarrow> bool" where
  "key_lt (Num a) (Num b) = (a < b)"
| "key_lt _ _ = False"

fun insort_rsi :: "string \<times> pyfloat \<Rightarrow> (string \<times> pyfloat) list \<Rightarrow> (string \<times> pyfloat) list" where
  "insort_rsi x [] = [x]"
| "insort_rsi x (y # ys) = (if key_lt (snd y) (snd x) then y # insort_rsi x ys else x # y # ys)"

definition sort_by_rsi :: "(string \<times> pyfloat) list \<Rightarrow> (string \<times> pyfloat) list" where
  "sort_by_rsi xs = foldr insort_rsi xs []"

definition execute_special_logic_35 :: "cache \<Rightarrow> exn + string" where
  "execute_special_logic_35 rsi_cache =
     (case collect_rsi rsi_cache tickers_to_check [] of
        Inl e \<Rightarrow> Inl e
      | Inr rsi_values \<Rightarrow>
          let bottom_2 = take 2 (sort_by_rsi rsi_values)
          in (case bottom_2 of
                [a, b] \<Rightarrow>
                  Inr (''Buy '' @ fst a @ '' and '' @ fst b @ '' (Bottom 2 RSIs: ''
                       @ format_2f (snd a) @ '', '' @ format_2f (snd b) @ '')'')
              | _ \<Rightarrow> Inl IndexError))"

section \<open>Signal Tree Evaluator: \<^verbatim>\<open>execute_logic\<close>\<close>

text \<open>
  A successor in the tree is an \<^verbatim>\<open>int\<close> (the id of the next node) or a \<^verbatim>\<open>str\<close>
  (a terminal result; \<^verbatim>\<open>'SPECIAL_LOGIC'\<close> is one of them).
\<close>

datatype next_step = Goto nat | Terminal string

text \<open>
  One entry of \<^verbatim>\<open>logic_tree\<close>. The \<^verbatim>\<open>condition\<close> is a closure over the global cache and
  stands beside the descriptive fields, as in the source.
\<close>

record node =
  condition :: "cache \<Rightarrow> exn + bool"
  ticker :: string
  window :: int
  threshold :: real
  operator :: string
  true :: next_step
  false :: next_step

definition logic_tree_items :: "(nat \<times> node) list" where
  "logic_tree_items = [
   (1, \<lparr>condition = (\<lambda>rsi_cache. py_gt (get_rsi rsi_cache ''QQQ'' 9) 79),
         ticker = ''QQQ'', window = 9, threshold = 79, operator = ''>'',
         true = Goto 2, false = Goto 3\<rparr>),
   (2, \<lparr>condition = (\<lambda>rsi_cache. py_gt (get_rsi rsi_cache ''VIXY'' 50) 40),
         ticker = ''VIXY'', window = 50, threshold = 40, operator = ''>'',
         true = Terminal ''1.5x VIX Group (VXX, UVIX)'', false = Goto 4\<rparr>),
   (3, \<lparr>condition = (\<lambda>rsi_cache. py_gt (get_rsi rsi_cache ''SPY'' 9) 79),
         ticker = ''SPY'', window = 9, threshold = 79, operator = ''>'',
         true = Goto 5, false = Goto 8\<rparr>),
   (4, \<lparr>condition = (\<lambda>rsi_cache. py_gt (get_rsi rsi_cache ''SPY'' 9) 82.5),
         ticker = ''SPY'', window = 9, threshold = 82.5, operator = ''>'',
         true = Terminal ''1.5x VIX Group (VXX, UVIX)'', false = Terminal ''VIX Blend (VXX=0.45, VIXM=0.2, UVIX=0.35)''\<rparr>),
   (5, \<lparr>condition = (\<lambda>rsi_cache. py_gt (get_rsi rsi_cache ''VIXY'' 60) 40),
         ticker = ''VIXY'', window = 60, threshold = 40, operator = ''>'',
         true = Terminal ''1.5x VIX Group (VXX, UVIX)'', false = Goto 6\<rparr>),
   (6, \<lparr>condition = (\<lambda>rsi_cache. py_gt (get_rsi rsi_cache ''QQQ'' 9) 82.5),
         ticker = ''QQQ'', window = 9, threshold = 82.5, operator = ''>'',
         true = Terminal ''1.5x VIX Group (VXX, UVIX)'', false = Terminal ''VIX Blend (VXX=0.45, VIXM=0.2, UVIX=0.35)''\<rparr>),
   (8, \<lparr>condition = (\<lambda>rsi_cache. py_gt (get_rsi rsi_cache ''IOO'' 9) 80),
         ticker = ''IOO'', window = 9, threshold = 80, operator = ''>'',
         true = Goto 9, false = Goto 12\<rparr>),
   (9, \<lparr>condition = (\<lambda>rsi_cache. py_gt (get_rsi rsi_cache ''VIXY'' 60) 40),
         ticker = ''VIXY'', window = 60, threshold = 40, operator = ''>'',
         true = Terminal ''1.5x VIX Group (VXX, UVIX)'', false = Goto 10\<rparr>),
   (10, \<lparr>condition = (\<lambda>rsi_cache. py_gt (get_rsi rsi_cache ''IOO'' 9) 82.5),
         ticker = ''IOO'', window = 9, threshold = 82.5, operator = ''>'',
         true = Terminal ''1.5x VIX Group (VXX, UVIX)'', false = Terminal ''1x VIX (VIXY)''\<rparr>),
   (12, \<lparr>condition = (\<lambda>rsi_cache. py_gt (get_rsi rsi_cache ''XLP'' 9) 77),
         ticker = ''XLP'', window = 9, threshold = 77, operator = ''>'',
         true = Goto 13, false = Goto 16\<rparr>),
   (13, \<lparr>condition = (\<lambda>rsi_cache. py_gt (get_rsi rsi_cache ''XLP'' 9) 82.5),
         ticker = ''XLP'', window = 9, threshold = 82.5, operator = ''>'',
         true = Terminal ''1.5x VIX Group (VXX, UVIX)'', false = Terminal ''1x VIX (VIXY)''\<rparr>),
   (16, \<lparr>condition = (\<lambda>rsi_cache. py_gt (get_rsi rsi_cache ''VTV'' 9) 79),
         ticker = ''VTV'', window = 9, threshold = 79, operator = ''>'',
         true = Goto 17, false = Goto 18\<rparr>),
   (17, \<lparr>condition = (\<lambda>rsi_cache. py_gt (get_rsi rsi_cache ''VTV'' 9) 82.5),
         ticker = ''VTV'', window = 9, threshold = 82.5, operator = ''>'',
         true = Terminal ''1.5x VIX Group (VXX, UVIX)'', false = Terminal ''1x VIX (VIXY)''\<rparr>),
   (18, \<lparr>condition = (\<lambda>rsi_cache. py_gt (get_rsi rsi_cache ''XLF'' 9) 81),
         ticker = ''XLF'', window = 9, threshold = 81, operator = ''>'',
         true = Goto 19, false = Goto 22\<rparr>),
   (19, \<lparr>condition = (\<lambda>rsi_cache. py_gt (get_rsi rsi_cache ''XLF'' 9) 85),
         ticker = ''XLF'', window = 9, threshold = 85, operator = ''>'',
         true = Terminal ''1.5x VIX Group (VXX, UVIX)'', false = Terminal ''1x VIX (VIXY)''\<rparr>),
   (22, \<lparr>condition = (\<lambda>rsi_cache. py_gt (get_rsi rsi_cache ''VOX'' 9) 79),
         ticker = ''VOX'', window = 9, threshold = 79, operator = ''>'',
         true = Goto 23, false = Goto 24\<rparr>),
   (23, \<lparr>condition = (\<lambda>rsi_cache. py_gt (get_rsi rsi_cache ''VOX'' 9) 82.5),
         ticker = ''VOX'', window = 9, threshold = 82.5, operator = ''>'',
         true = Terminal ''1.5x VIX Group (VXX, UVIX)'', false = Terminal ''1x VIX (VIXY)''\<rparr>),
   (24, \<lparr>condition = (\<lambda>rsi_cache. py_gt (get_rsi rsi_cache ''CURE'' 9) 82),
         ticker = ''CURE'', window = 9, threshold = 82, operator = ''>'',
         true = Goto 25, false = Goto 28\<rparr>),
   (25, \<lparr>condition = (\<lambda>rsi_cache. py_gt (get_rsi rsi_cache ''CURE'' 9) 85),
         ticker = ''CURE'', window = 9, threshold = 85, operator = ''>'',
         true = Terminal ''1.5x VIX Group (VXX, UVIX)'', false = Terminal ''1x VIX (VIXY)''\<rparr>),
   (28, \<lparr>condition = (\<lambda>rsi_cache. py_gt (get_rsi rsi_cache ''RETL'' 9) 82),
         ticker = ''RETL'', window = 9, threshold = 82, operator = ''>'',
         true = Goto 29, false = Goto 32\<rparr>),
   (29, \<lparr>condition = (\<lambda>rsi_cache. py_gt (get_rsi rsi_cache ''RETL'' 9) 85),
         ticker = ''RETL'', window = 9, threshold = 85, operator = ''>'',
         true = Terminal ''1.5x VIX Group (VXX, UVIX)'', false = Terminal ''1x VIX (VIXY)''\<rparr>),
   (32, \<lparr>condition = (\<lambda>rsi_cache. py_gt (get_rsi rsi_cache ''LABU'' 9) 79),
         ticker = ''LABU'', window = 9, threshold = 79, operator = ''>'',
         true = Terminal ''LABD'', false = Goto 33\<rparr>),
   (33, \<lparr>condition = (\<lambda>rsi_cache. py_lt (get_rsi rsi_cache ''SOXL'' 9) 25),
         ticker = ''SOXL'', window = 9, threshold = 25, operator = ''<'',
         true = Terminal ''SOXL'', false = Goto 34\<rparr>),
   (34, \<lparr>condition = (\<lambda>rsi_cache. py_lt (get_rsi rsi_cache ''FNGU'' 9) 25),
         ticker = ''FNGU'', window = 9, threshold = 25, operator = ''<'',
         true = Terminal ''FNGU'', false = Goto 35\<rparr>),
   (35, \<lparr>condition = (\<lambda>rsi_cache. py_lt (get_rsi rsi_cache ''TQQQ'' 9) 28),
         ticker = ''TQQQ'', window = 9, threshold = 28, operator = ''<'',
         true = Terminal ''SPECIAL_LOGIC'', false = Goto 36\<rparr>),
   (36, \<lparr>condition = (\<lambda>rsi_cache. py_lt (get_rsi rsi_cache ''TECL'' 9) 25),
         ticker = ''TECL'', window = 9, threshold = 25, operator = ''<'',
         true = Terminal ''TECL'', false = Goto 37\<rparr>),
   (37, \<lparr>condition = (\<lambda>rsi_cache. py_lt (get_rsi rsi_cache ''UPRO'' 9) 25),
         ticker = ''UPRO'', window = 9, threshold = 25, operator = ''<'',
         true = Terminal ''UPRO'', false = Terminal ''BIL (T-Bill ETF)''\<rparr>)]"

definition logic_tree :: "nat \<Rightarrow> node option" where
  "logic_tree = map_of logic_tree_items"

text \<open>One entry of \<^verbatim>\<open>decision_path\<close>.\<close>

record step =
  step_ticker :: string
  step_window :: int
  step_operator :: string
  step_threshold :: real
  step_result :: bool
  step_current_rsi :: pyfloat

definition record_step :: "node \<Rightarrow> bool \<Rightarrow> pyfloat \<Rightarrow> step" where
  "record_step nd result current_rsi =
     \<lparr>step_ticker = ticker nd, step_window = window nd, step_operator = operator nd,
      step_threshold = threshold nd, step_result = result, step_current_rsi = current_rsi\<rparr>"

text \<open>
  The \<^verbatim>\<open>while True\<close> loop. \<open>None\<close> means that the loop does not stop. A missing id is
  the \<^verbatim>\<open>KeyError\<close> of \<^verbatim>\<open>logic_tree[current_id]\<close>; the \<^verbatim>\<open>print\<close> of a step formats
  \<^verbatim>\<open>current_rsi\<close> with \<^verbatim>\<open>:.2f\<close> and raises \<^verbatim>\<open>TypeError\<close> on \<^verbatim>\<open>None\<close>.
\<close>

partial_function (option) traverse ::
    "cache \<Rightarrow> nat \<Rightarrow> step list \<Rightarrow> (exn + string \<times> step list) option" where
  "traverse rsi_cache current_id decision_path =
     (case logic_tree current_id of
        None \<Rightarrow> Some (Inl KeyError)
      | Some nd \<Rightarrow>
          (case condition nd rsi_cache of
             Inl e \<Rightarrow> Some (Inl e)
           | Inr result \<Rightarrow>
               (case get_rsi rsi_cache (ticker nd) (window nd) of
                  None \<Rightarrow> Some (Inl TypeError)
                | Some current_rsi \<Rightarrow>
                    let decision_path' = decision_path @ [record_step nd result current_rsi];
                        next_step = (if result then true nd else false nd)
                    in (case next_step of
                          Terminal s \<Rightarrow>
                            if s = ''SPECIAL_LOGIC''
                            then (case execute_special_logic_35 rsi_cache of
                                    Inl e \<Rightarrow> Some (Inl e)
                                  | Inr final_result \<Rightarrow> Some (Inr (final_result, decision_path')))
                            else Some (Inr (s, decision_path'))
                        | Goto n \<Rightarrow> traverse rsi_cache n decision_path'))))"

definition execute_logic :: "cache \<Rightarrow> (exn + string \<times> step list) option" where
  "execute_logic rsi_cache = traverse rsi_cache 1 []"

section \<open>A call of \<^verbatim>\<open>execute_logic\<close> as a program over its variables\<close>

text \<open>
  The module's globals, which outlive a call.
\<close>

record globals =
  ticker_data :: "string \<Rightarrow> pyfloat list option"
  rsi_cache :: cache

text \<open>
  The variables of one activation of \<^verbatim>\<open>execute_logic\<close>: the globals it can reach and
  its locals \<^verbatim>\<open>decision_path\<close>, \<^verbatim>\<open>current_id\<close> and \<^verbatim>\<open>step_count\<close>. (The local
  \<^verbatim>\<open>logic_tree\<close> is the same literal in every call and is never assigned to. What the
  function prints goes to standard output, which no later call reads.)
\<close>

record frame =
  globs :: globals
  decision_path :: "step list"
  current_id :: nat
  step_count :: nat

text \<open>
  One turn of the \<^verbatim>\<open>while True\<close> loop, statement by statement, on the frame. The result
  says how the turn ends: \<open>Inl\<close> with the exception raised, \<open>Inr (Some final_result)\<close> at
  the \<^verbatim>\<open>return\<close>, \<open>Inr None\<close> when the loop goes round again.
\<close>

definition loop_iteration :: "frame \<Rightarrow> (exn + string option) \<times> frame" where
  "loop_iteration s =
     (let s1 = s\<lparr>step_count := step_count s + 1\<rparr>
      in case logic_tree (current_id s1) of
           None \<Rightarrow> (Inl KeyError, s1)
         | Some nd \<Rightarrow>
             (case condition nd (rsi_cache (globs s1)) of
                Inl e \<Rightarrow> (Inl e, s1)
              | Inr result \<Rightarrow>
                  (case get_rsi (rsi_cache (globs s1)) (ticker nd) (window nd) of
                     None \<Rightarrow> (Inl TypeError, s1)
                   | Some current_rsi \<Rightarrow>
                       let s2 = s1\<lparr>decision_path :=
                                      decision_path s1 @ [record_step nd result current_rsi]\<rparr>;
                           next_step = (if result then true nd else false nd)
                       in (case next_step of
                             Terminal t \<Rightarrow>
                               if t = ''SPECIAL_LOGIC''
                               then (case execute_special_logic_35 (rsi_cache (globs s2)) of
                                       Inl e \<Rightarrow> (Inl e, s2)
                                     | Inr final_result \<Rightarrow> (Inr (Some final_result), s2))
                               else (Inr (Some t), s2)
                           | Goto n \<Rightarrow> (Inr None, s2\<lparr>current_id := n\<rparr>)))))"

text \<open>The loop: \<open>None\<close> means that it does not stop.\<close>

partial_function (option) run_loop :: "frame \<Rightarrow> ((exn + string) \<times> frame) option" where
  "run_loop s =
     (case loop_iteration s of
        (Inl e, s') \<Rightarrow> Some (Inl e, s')
      | (Inr (Some final_result), s') \<Rightarrow> Some (Inr final_result, s')
      | (Inr None, s') \<Rightarrow> run_loop s')"

text \<open>
  A call: the locals are initialised (\<^verbatim>\<open>decision_path = []\<close>, \<^verbatim>\<open>current_id = 1\<close>,
  \<^verbatim>\<open>step_count = 0\<close>), the loop runs, and the call leaves the pair that it returns, or
  the exception, together with the globals as they are then.
\<close>

definition call_execute_logic ::
    "globals \<Rightarrow> ((exn + string \<times> step list) \<times> globals) option" where
  "call_execute_logic g =
     (case run_loop \<lparr>globs = g, decision_path = [], current_id = 1, step_count = 0\<rparr> of
        None \<Rightarrow> None
      | Some (Inl e, s') \<Rightarrow> Some (Inl e, globs s')
      | Some (Inr final_result, s') \<Rightarrow> Some (Inr (final_result, decision_path s'), globs s'))"

section \<open>Filling the cache: \<^verbatim>\<open>calculate_all_rsi\<close>\<close>

definition TICKERS :: "string list" where
  "TICKERS = [''QQQ'', ''VIXY'', ''SPY'', ''IOO'', ''XLP'', ''VTV'', ''XLF'', ''VOX'',
              ''CURE'', ''RETL'', ''LABU'', ''SOXL'', ''FNGU'', ''TQQQ'', ''TECL'', ''UPRO'']"

text \<open>
  \<^verbatim>\<open>ticker_data\<close> is seen through the \<^verbatim>\<open>Close\<close> column of each downloaded frame, which
  may hold \<^verbatim>\<open>nan\<close>; \<^verbatim>\<open>prices[~np.isnan(prices)]\<close> removes those.
\<close>

fun dropna :: "pyfloat list \<Rightarrow> real list" where
  "dropna [] = []"
| "dropna (Num x # xs) = x # dropna xs"
| "dropna (NaN # xs) = dropna xs"

text \<open>
  The first loop. Each present ticker gets its 9-day value stored, then printed with
  \<^verbatim>\<open>:.2f\<close>: when the value is \<^verbatim>\<open>None\<close> the print raises \<^verbatim>\<open>TypeError\<close>, after the
  store. The result is the exception, if any, and the cache as the call leaves it.
\<close>

fun rsi_9_loop :: "(string \<Rightarrow> pyfloat list option) \<Rightarrow> string list \<Rightarrow> cache \<Rightarrow> exn option \<times> cache" where
  "rsi_9_loop td [] c = (None, c)"
| "rsi_9_loop td (t # ts) c =
     (case td t of
        None \<Rightarrow> rsi_9_loop td ts c
      | Some closes \<Rightarrow>
          let prices = dropna closes;
              rsi_9 = calculate_rsi_sma prices 9;
              c' = c((t, 9) \<mapsto> rsi_9)
          in (case rsi_9 of None \<Rightarrow> (Some TypeError, c') | Some v \<Rightarrow> rsi_9_loop td ts c'))"

definition calculate_all_rsi ::
    "(string \<Rightarrow> pyfloat list option) \<Rightarrow> cache \<Rightarrow> exn option \<times> cache" where
  "calculate_all_rsi td c =
     (case rsi_9_loop td TICKERS c of
        (Some e, c') \<Rightarrow> (Some e, c')
      | (None, c') \<Rightarrow>
          (case td ''VIXY'' of
             None \<Rightarrow> (None, c')
           | Some closes \<Rightarrow>
               let prices = dropna closes;
                   rsi_50 = calculate_rsi_sma prices 50;
                   rsi_60 = calculate_rsi_sma prices 60;
                   c'' = c'((''VIXY'', 50) \<mapsto> rsi_50, (''VIXY'', 60) \<mapsto> rsi_60)
               in if rsi_50 = None \<or> rsi_60 = None then (Some TypeError, c'')
                  else (None, c'')))"

section \<open>Notification Policy: \<^verbatim>\<open>should_notify\<close>\<close>

text \<open>
  The persisted record is the dict that \<^verbatim>\<open>json.load\<close> returns; \<^verbatim>\<open>write_state\<close>
  stores strings and one boolean in it.
\<close>

datatype jval = JStr string | JBool bool

type_synonym jdict = "(string \<times> jval) list"

definition dict_get :: "jdict \<Rightarrow> string \<Rightarrow> jval \<Rightarrow> jval" where
  "dict_get d k dflt = (case map_of d k of None \<Rightarrow> dflt | Some v \<Rightarrow> v)"

text \<open>How an f-string renders a value.\<close>

fun py_str :: "jval \<Rightarrow> string" where
  "py_str (JStr s) = s"
| "py_str (JBool b) = (if b then ''True'' else ''False'')"

definition quoted :: "string \<Rightarrow> string" where
  "quoted s = [CHR 0x27] @ s @ [CHR 0x27]"

text \<open>The arrow U+2192 of the message, in UTF-8.\<close>

definition rightwards_arrow :: string where
  "rightwards_arrow = [CHR 0xE2, CHR 0x86, CHR 0x92]"

text \<open>
  \<^verbatim>\<open>should_notify(current_signal, last_state)\<close>. \<open>today\<close> is the date the function reads
  from the clock, in US Eastern time, as \<^verbatim>\<open>%Y-%m-%d\<close>.
\<close>

definition should_notify :: "string \<Rightarrow> string \<Rightarrow> jdict option \<Rightarrow> bool \<times> string" where
  "should_notify today current_signal last_state =
     (case last_state of
        None \<Rightarrow> (True, ''First run ever'')
      | Some st \<Rightarrow>
          let last_date = dict_get st ''date'' (JStr []);
              last_signal = dict_get st ''signal'' (JStr [])
          in if last_date \<noteq> JStr today
             then (True, ''First check of trading day ('' @ today @ '')'')
             else if JStr current_signal \<noteq> last_signal
             then (True, ''Signal changed: '' @ quoted (py_str last_signal) @ '' ''
                         @ rightwards_arrow @ '' '' @ quoted current_signal)
             else (False, ''No change (still '' @ quoted current_signal @ '')''))"

section \<open>State manager: \<^verbatim>\<open>read_state\<close> and \<^verbatim>\<open>write_state\<close>\<close>

text \<open>
  An exception raised by a storage or JSON call, given by its message \<^verbatim>\<open>str(e)\<close>. All of
  them derive from \<^verbatim>\<open>Exception\<close>, which is what the handlers catch.
\<close>

type_synonym failure = string

text \<open>
  What \<^verbatim>\<open>json.load\<close> can return, as far as the callers tell the values apart:
  \<^verbatim>\<open>None\<close> for \<^verbatim>\<open>null\<close>, a dict for an object, and any other value (a list, a string, a
  number, a boolean), none of which has a method \<^verbatim>\<open>get\<close>.
\<close>

datatype loaded = PyNone | PyDict jdict | PyOther

text \<open>
  The world the state manager runs in: the module constant \<^verbatim>\<open>IS_LAMBDA\<close>, the clock, and
  the outcome of each call that leaves the process.
\<close>

record env =
  IS_LAMBDA :: bool
  S3_BUCKET :: string
  s3_get_object :: "failure + string"
  s3_put_object :: "string \<Rightarrow> failure option"
  file_exists :: bool
  file_read :: "failure + string"
  file_write :: "string \<Rightarrow> failure option"
  json_loads :: "string \<Rightarrow> failure + loaded"
  json_dumps :: "jdict \<Rightarrow> string"
  et_date :: string
  et_timestamp :: string

definition warning_sign :: string where
  "warning_sign = [CHR 0xE2, CHR 0x9A, CHR 0xA0, CHR 0xEF, CHR 0xB8, CHR 0x8F]"

definition check_mark :: string where
  "check_mark = [CHR 0xE2, CHR 0x9C, CHR 0x93]"

text \<open>
  The body of the \<^verbatim>\<open>try\<close> in \<^verbatim>\<open>read_state\<close>: \<open>Inl\<close> is an exception raised in it,
  \<open>Inr\<close> the value that reaches a \<^verbatim>\<open>return\<close>: what \<^verbatim>\<open>json.load\<close> gave, whatever it
  is, or \<^verbatim>\<open>None\<close> when there is no local file.
\<close>

definition read_state_try :: "env \<Rightarrow> failure + loaded" where
  "read_state_try e =
     (if IS_LAMBDA e
      then (case s3_get_object e of
              Inl x \<Rightarrow> Inl x
            | Inr state_json \<Rightarrow> json_loads e state_json)
      else if file_exists e
      then (case file_read e of
              Inl x \<Rightarrow> Inl x
            | Inr text \<Rightarrow> json_loads e text)
      else Inr PyNone)"

text \<open>
  \<^verbatim>\<open>read_state\<close>: what the call does (\<open>Inl\<close>: raises, \<open>Inr\<close>: returns) and what it
  prints. The handler catches the exception, prints it, and the function returns
  \<^verbatim>\<open>None\<close>.
\<close>

definition read_state :: "env \<Rightarrow> (exn + loaded) \<times> string list" where
  "read_state e =
     (case read_state_try e of
        Inl x \<Rightarrow> (Inr PyNone, [warning_sign @ ''  Could not read state: '' @ x])
      | Inr r \<Rightarrow> (Inr r, []))"

text \<open>
  The body of the \<^verbatim>\<open>try\<close> in \<^verbatim>\<open>write_state\<close>: \<open>Inl\<close> is an exception raised in it,
  \<open>Inr\<close> the text that was stored and the line printed.
\<close>

definition write_state_try :: "env \<Rightarrow> string \<Rightarrow> bool \<Rightarrow> failure + string \<times> string list" where
  "write_state_try e signal notified =
     (let state = [(''signal'', JStr signal), (''date'', JStr (et_date e)),
                   (''timestamp'', JStr (et_timestamp e)), (''notified'', JBool notified)];
          state_json = json_dumps e state
      in if IS_LAMBDA e
         then (case s3_put_object e state_json of
                 Some x \<Rightarrow> Inl x
               | None \<Rightarrow> Inr (state_json, [check_mark @ '' State saved to S3: s3://''
                                           @ S3_BUCKET e @ ''/trading_state.json'']))
         else (case file_write e state_json of
                 Some x \<Rightarrow> Inl x
               | None \<Rightarrow> Inr (state_json, [check_mark
                                           @ '' State saved to local file: trading_state.json''])))"

text \<open>
  \<^verbatim>\<open>write_state\<close>: what the call does (\<open>Inl\<close>: raises, \<open>Inr\<close>: returns), the text it
  stored, if any, and what it prints.
\<close>

definition write_state ::
    "env \<Rightarrow> string \<Rightarrow> bool \<Rightarrow> (exn + unit) \<times> string option \<times> string list" where
  "write_state e signal notified =
     (case write_state_try e signal notified of
        Inl x \<Rightarrow> (Inr (), None, [warning_sign @ ''  Could not write state: '' @ x])
      | Inr (stored, out) \<Rightarrow> (Inr (), Some stored, out))"

section \<open>Run Orchestrator: the end of \<^verbatim>\<open>main\<close>, and \<^verbatim>\<open>lambda_handler\<close>\<close>

text \<open>
  The call \<^verbatim>\<open>should_notify(final_decision, last_state)\<close> in \<^verbatim>\<open>main\<close>, where
  \<^verbatim>\<open>last_state\<close> is whatever \<^verbatim>\<open>read_state\<close> returned. On \<^verbatim>\<open>None\<close> and on a dict it is
  the function above. On any other value the test \<^verbatim>\<open>last_state is None\<close> fails and
  \<^verbatim>\<open>last_state.get\<close> raises \<^verbatim>\<open>AttributeError\<close>.
\<close>

definition call_should_notify :: "string \<Rightarrow> string \<Rightarrow> loaded \<Rightarrow> exn + bool \<times> string" where
  "call_should_notify today current_signal last_state =
     (case last_state of
        PyNone \<Rightarrow> Inr (should_notify today current_signal None)
      | PyDict st \<Rightarrow> Inr (should_notify today current_signal (Some st))
      | PyOther \<Rightarrow> Inl AttributeError)"

text \<open>
  Step 4 of \<^verbatim>\<open>main\<close>, from the decision that step 3 computed: read the last state
  and decide on the notification. The result is the exception that leaves \<^verbatim>\<open>main\<close>, or
  the pair \<^verbatim>\<open>(notify, reason)\<close>.
\<close>

definition main_step_4 :: "env \<Rightarrow> string \<Rightarrow> string \<Rightarrow> exn + bool \<times> string" where
  "main_step_4 e today final_decision =
     (case fst (read_state e) of
        Inl x \<Rightarrow> Inl x
      | Inr last_state \<Rightarrow> call_should_notify today final_decision last_state)"

text \<open>
  Steps 4 to 6 of \<^verbatim>\<open>main\<close>, after steps 1 to 3 have succeeded: decide on the
  notification, send it, save the state, return the decision. \<open>delivered\<close> stands for
  step 5: Telegram is configured and \<^verbatim>\<open>send_telegram_message\<close> returned \<^verbatim>\<open>True\<close>. Step
  5 does not raise: the sender catches its own exceptions, and the report formats
  values of the cache and of the path that steps 2 and 3 have already formatted. The
  result is the exception that leaves \<^verbatim>\<open>main\<close>, or the decision that \<^verbatim>\<open>main\<close>
  returns.
\<close>

definition main_steps_4_to_6 ::
    "env \<Rightarrow> string \<Rightarrow> string \<Rightarrow> bool \<Rightarrow> exn + string" where
  "main_steps_4_to_6 e today final_decision delivered =
     (case main_step_4 e today final_decision of
        Inl x \<Rightarrow> Inl x
      | Inr (notify, reason) \<Rightarrow>
          let notified = (notify \<and> delivered)
          in (case fst (write_state e final_decision notified) of
                Inl x \<Rightarrow> Inl x
              | Inr u \<Rightarrow> Inr final_decision))"

text \<open>
  \<^verbatim>\<open>lambda_handler\<close>, over what \<^verbatim>\<open>main()\<close> did: status 200 with the signal, or status
  500 for an exception. (The event that it prints first is the JSON document of the
  trigger.)
\<close>

definition lambda_handler :: "exn + string \<Rightarrow> nat \<times> (exn + string)" where
  "lambda_handler main_result =
     (case main_result of Inr result \<Rightarrow> (200, Inr result) | Inl x \<Rightarrow> (500, Inl x))"

section \<open>Concrete inputs\<close>

text \<open>A cache that holds \<open>0\<close> under every key.\<close>

definition all_zero_cache :: cache where
  "all_zero_cache = (\<lambda>k. Some (Some (Num 0)))"

text \<open>A cache that holds \<^verbatim>\<open>None\<close> for the first node of the tree and nothing else.\<close>

definition qqq_unavailable_cache :: cache where
  "qqq_unavailable_cache = map_of [((''QQQ'', 9), None)]"

text \<open>The cache of the tie-break example.\<close>

definition tie_cache :: cache where
  "tie_cache = map_of [((''SOXL'', 9), Some (Num 20)), ((''TECL'', 9), Some (Num 30)),
                       ((''TQQQ'', 9), Some (Num 20)), ((''FNGU'', 9), Some (Num 40))]"

text \<open>The cache of the end-to-end example.\<close>

definition vix_cache :: cache where
  "vix_cache = map_of [((''QQQ'', 9), Some (Num 85)), ((''VIXY'', 50), Some (Num 45))]"

text \<open>Downloaded data in which only VIXY is present, with exactly 60 closes.\<close>

definition vixy_60_data :: "string \<Rightarrow> pyfloat list option" where
  "vixy_60_data = map_of [(''VIXY'', map (\<lambda>i. Num (real i)) [1..<61])]"

text \<open>A state manager on local files whose write fails and whose file is unreadable.\<close>

definition failing_env :: env where
  "failing_env =
     \<lparr>IS_LAMBDA = False, S3_BUCKET = ''trading-algorithm-state'',
      s3_get_object = Inl ''NoSuchKey'', s3_put_object = (\<lambda>t. Some ''AccessDenied''),
      file_exists = True, file_read = Inl ''Permission denied'',
      file_write = (\<lambda>t. Some ''No space left on device''),
      json_loads = (\<lambda>t. Inl ''Expecting value''), json_dumps = (\<lambda>d. ''{}''),
      et_date = ''2026-01-05'', et_timestamp = ''2026-01-05 10:00:00''\<rparr>"

text \<open>A state manager on local files whose state file holds the JSON list \<^verbatim>\<open>[1]\<close>.\<close>

definition list_state_env :: env where
  "list_state_env =
     \<lparr>IS_LAMBDA = False, S3_BUCKET = ''trading-algorithm-state'',
      s3_get_object = Inl ''NoSuchKey'', s3_put_object = (\<lambda>t. None),
      file_exists = True, file_read = Inr ''[1]'',
      file_write = (\<lambda>t. None),
      json_loads = (\<lambda>t. Inr PyOther), json_dumps = (\<lambda>d. ''{}''),
      et_date = ''2026-01-05'', et_timestamp = ''2026-01-05 10:00:00''\<rparr>"

text \<open>Downloaded data in which only QQQ is present, with three closes.\<close>

definition short_qqq_data :: "string \<Rightarrow> pyfloat list option" where
  "short_qqq_data = map_of [(''QQQ'', [Num 100, Num 102, Num 101])]"

text \<open>The path that the all-zero cache takes: ten refusals, then SOXL below 25.\<close>

definition all_zero_path :: "step list" where
  "all_zero_path =
     [\<lparr>step_ticker = ''QQQ'', step_window = 9, step_operator = ''>'',
       step_threshold = 79, step_result = False, step_current_rsi = Num 0\<rparr>,
      \<lparr>step_ticker = ''SPY'', step_window = 9, step_operator = ''>'',
       step_threshold = 79, step_result = False, step_current_rsi = Num 0\<rparr>,
      \<lparr>step_ticker = ''IOO'', step_window = 9, step_operator = ''>'',
       step_threshold = 80, step_result = False, step_current_rsi = Num 0\<rparr>,
      \<lparr>step_ticker = ''XLP'', step_window = 9, step_operator = ''>'',
       step_threshold = 77, step_result = False, step_current_rsi = Num 0\<rparr>,
      \<lparr>step_ticker = ''VTV'', step_window = 9, step_operator = ''>'',
       step_threshold = 79, step_result = False, step_current_rsi = Num 0\<rparr>,
      \<lparr>step_ticker = ''XLF'', step_window = 9, step_operator = ''>'',
       step_threshold = 81, step_result = False, step_current_rsi = Num 0\<rparr>,
      \<lparr>step_ticker = ''VOX'', step_window = 9, step_operator = ''>'',
       step_threshold = 79, step_result = False, step_current_rsi = Num 0\<rparr>,
      \<lparr>step_ticker = ''CURE'', step_window = 9, step_operator = ''>'',
       step_threshold = 82, step_result = False, step_current_rsi = Num 0\<rparr>,
      \<lparr>step_ticker = ''RETL'', step_window = 9, step_operator = ''>'',
       step_threshold = 82, step_result = False, step_current_rsi = Num 0\<rparr>,
      \<lparr>step_ticker = ''LABU'', step_window = 9, step_operator = ''>'',
       step_threshold = 79, step_result = False, step_current_rsi = Num 0\<rparr>,
      \<lparr>step_ticker = ''SOXL'', step_window = 9, step_operator = ''<'',
       step_threshold = 25, step_result = True, step_current_rsi = Num 0\<rparr>]"

section \<open>Words of the specification\<close>

text \<open>
  The sort key of a candidate as a number, for the library's stable \<open>sort_key\<close>: what
  "sort ascending by value, ties in the original order" means.
\<close>

definition num_key :: "string \<times> pyfloat \<Rightarrow> real" where
  "num_key p = (case snd p of Num x \<Rightarrow> x | NaN \<Rightarrow> 0)"

text \<open>
  The specification's invariant of a decision path, as a check on a list of steps: the
  walk starts at node \<open>n\<close>, each step is the record of the node it stands for, the next
  step belongs to the successor chosen there, and the list ends at the first step whose
  chosen successor is a terminal string.
\<close>

fun walk_from :: "cache \<Rightarrow> nat \<Rightarrow> step list \<Rightarrow> bool" where
  "walk_from c n [] = False"
| "walk_from c n (s # rest) =
     (case logic_tree n of
        None \<Rightarrow> False
      | Some nd \<Rightarrow>
          (case (condition nd c, get_rsi c (ticker nd) (window nd)) of
             (Inr result, Some current_rsi) \<Rightarrow>
                s = record_step nd result current_rsi
                \<and> (case (if result then true nd else false nd) of
                       Terminal l \<Rightarrow> rest = []
                     | Goto m \<Rightarrow> walk_from c m rest)
           | _ \<Rightarrow> False))"

section \<open>Facts about the Indicator Calculator\<close>

text \<open>
  The slice \<^verbatim>\<open>[-(window):]\<close> is the most recent \<open>window\<close> elements when the window is
  at least one; at a window of \<open>0\<close> it is the whole list.
\<close>

lemma py_slice_last:
  assumes "1 \<le> w"
  shows "py_slice_from (- w) xs = drop (length xs - nat w) xs"
proof -
  from assms have "nat (int (length xs) + - w) = length xs - nat w" by linarith
  with assms show ?thesis by (simp add: py_slice_from_def)
qed

lemma py_slice_window_0: "py_slice_from (- 0) xs = xs"
  by (simp add: py_slice_from_def)

text \<open>The function returns \<open>None\<close> at its guard and nowhere else.\<close>

lemma calculate_rsi_sma_None_iff:
  "calculate_rsi_sma prices w = None \<longleftrightarrow> int (length prices) < w + 1"
  by (simp add: calculate_rsi_sma_def Let_def split: prod.splits pyfloat.splits)

text \<open>
  Claim C5. A price series with fewer than \<open>window + 1\<close> observations yields \<open>None\<close>
  (Unavailable), whatever the window.
\<close>

theorem calculate_rsi_sma_too_short:
  "int (length prices) < w + 1 \<Longrightarrow> calculate_rsi_sma prices w = None"
  by (simp add: calculate_rsi_sma_def)

theorem calculate_rsi_sma_too_short_witness:
  "int (length [100, 102, 101 :: real]) < 9 + 1
   \<and> calculate_rsi_sma [100, 102, 101] 9 = None"
  using calculate_rsi_sma_too_short [of "[100, 102, 101]" 9] by simp

section \<open>Facts about the decision graph\<close>

text \<open>
  Every edge of the graph leads to a node with a greater id that exists: the graph has no
  cycle and no dangling successor.
\<close>

lemma tree_edges:
  assumes "logic_tree n = Some nd" and "true nd = Goto m \<or> false nd = Goto m"
  shows "n < m \<and> m \<le> 37 \<and> logic_tree m \<noteq> None"
  using assms
  by (auto simp: logic_tree_def logic_tree_items_def split: if_splits)

text \<open>The closure of each node compares the very indicator that its fields describe.\<close>

lemma tree_condition:
  assumes "logic_tree n = Some nd"
  shows "condition nd c =
    (if operator nd = ''>'' then py_gt else py_lt) (get_rsi c (ticker nd) (window nd)) (threshold nd)"
  using assms
  by (auto simp: logic_tree_def logic_tree_items_def split: if_splits)

section \<open>Facts about the traversal\<close>

lemma length_insort_rsi: "length (insort_rsi x ys) = Suc (length ys)"
  by (induction ys) simp_all

lemma length_sort_by_rsi: "length (sort_by_rsi xs) = length xs"
  unfolding sort_by_rsi_def by (induction xs) (simp_all add: length_insort_rsi)

text \<open>The resolver fails only with \<^verbatim>\<open>TypeError\<close>, and only over a stored \<^verbatim>\<open>None\<close>.\<close>

lemma collect_rsi_cases:
  "(\<exists>vs. collect_rsi c ts acc = Inr (acc @ vs) \<and> length vs = length ts)
   \<or> (collect_rsi c ts acc = Inl TypeError \<and> (\<exists>k. c k = Some None))"
proof (induction ts arbitrary: acc)
  case Nil
  then show ?case by simp
next
  case (Cons t ts)
  show ?case
  proof (cases "get_rsi c t 9")
    case None
    then have "c (t, 9) = Some None"
      by (simp add: get_rsi_def split: option.splits)
    with None show ?thesis by auto
  next
    case (Some v)
    from Cons.IH [of "acc @ [(t, v)]"] Some show ?thesis by auto
  qed
qed

lemma take_2: "2 \<le> length xs \<Longrightarrow> \<exists>a b. take 2 xs = [a, b]"
  by (cases xs; cases "tl xs") auto

lemma special_logic_cases:
  "(\<exists>label. execute_special_logic_35 c = Inr label)
   \<or> (execute_special_logic_35 c = Inl TypeError \<and> (\<exists>k. c k = Some None))"
proof -
  from collect_rsi_cases [of c tickers_to_check "[]"]
  consider vs where "collect_rsi c tickers_to_check [] = Inr vs" "length vs = 4"
    | "collect_rsi c tickers_to_check [] = Inl TypeError" "\<exists>k. c k = Some None"
    by (auto simp: tickers_to_check_def)
  then show ?thesis
  proof cases
    case 1
    then have "2 \<le> length (sort_by_rsi vs)" by (simp add: length_sort_by_rsi)
    then obtain a b where "take 2 (sort_by_rsi vs) = [a, b]" using take_2 by blast
    with 1 show ?thesis by (simp add: execute_special_logic_35_def)
  next
    case 2
    then show ?thesis by (simp add: execute_special_logic_35_def)
  qed
qed

text \<open>A comparison fails exactly when the looked-up value is a stored \<^verbatim>\<open>None\<close>.\<close>

lemma compare_cases:
  "(get_rsi c t w = None \<and> py_gt (get_rsi c t w) th = Inl TypeError \<and> py_lt (get_rsi c t w) th = Inl TypeError
     \<and> c (t, w) = Some None)
   \<or> (\<exists>v. get_rsi c t w = Some v \<and> (\<exists>b. py_gt (Some v) th = Inr b) \<and> (\<exists>b. py_lt (Some v) th = Inr b))"
proof (cases "get_rsi c t w")
  case None
  then have "c (t, w) = Some None" by (simp add: get_rsi_def split: option.splits)
  with None show ?thesis by simp
next
  case (Some v)
  then show ?thesis by (cases v) auto
qed

text \<open>
  From any node of the graph the loop stops: it returns a label and a path that extends
  the accumulated one by a walk from that node, or it raises \<^verbatim>\<open>TypeError\<close> over a
  stored \<^verbatim>\<open>None\<close>. The induction is on the distance of the node id from the
  greatest id, which every edge decreases.
\<close>

lemma traverse_cases:
  assumes "logic_tree n \<noteq> None"
  shows "(\<exists>label steps. traverse c n p = Some (Inr (label, p @ steps)) \<and> walk_from c n steps)
     \<or> (traverse c n p = Some (Inl TypeError) \<and> (\<exists>k. c k = Some None))"
  using assms
proof (induction "38 - n" arbitrary: n p rule: less_induct)
  case less
  from less.prems obtain nd where nd: "logic_tree n = Some nd" by auto
  note cond = tree_condition [OF nd, of c]
  from compare_cases [of c "ticker nd" "window nd" "threshold nd"]
  show ?case
  proof (elim disjE conjE exE)
    assume "get_rsi c (ticker nd) (window nd) = None"
      "py_gt (get_rsi c (ticker nd) (window nd)) (threshold nd) = Inl TypeError"
      "py_lt (get_rsi c (ticker nd) (window nd)) (threshold nd) = Inl TypeError"
      "c (ticker nd, window nd) = Some None"
    then have "traverse c n p = Some (Inl TypeError)" "\<exists>k. c k = Some None"
      using nd cond by (subst traverse.simps, auto)
    then show ?thesis by blast
  next
    fix v b1 b2
    assume v: "get_rsi c (ticker nd) (window nd) = Some v"
      and b1: "py_gt (Some v) (threshold nd) = Inr b1"
      and b2: "py_lt (Some v) (threshold nd) = Inr b2"
    define result where "result = (if operator nd = ''>'' then b1 else b2)"
    have res: "condition nd c = Inr result"
      using cond v b1 b2 by (simp add: result_def)
    define p' where "p' = p @ [record_step nd result v]"
    show ?thesis
    proof (cases "if result then true nd else false nd")
      case (Terminal s)
      have walk: "walk_from c n [record_step nd result v]"
        using nd res v Terminal by simp
      show ?thesis
      proof (cases "s = ''SPECIAL_LOGIC''")
        case False
        have "traverse c n p = Some (Inr (s, p @ [record_step nd result v]))"
          using nd res v Terminal False by (subst traverse.simps) simp
        with walk show ?thesis by blast
      next
        case True
        from special_logic_cases [of c] show ?thesis
        proof (elim disjE conjE exE)
          fix label assume "execute_special_logic_35 c = Inr label"
          then have "traverse c n p = Some (Inr (label, p @ [record_step nd result v]))"
            using nd res v Terminal True by (subst traverse.simps) simp
          with walk show ?thesis by blast
        next
          fix k
          assume e: "execute_special_logic_35 c = Inl TypeError" and k: "c k = Some None"
          from e have "traverse c n p = Some (Inl TypeError)"
            using nd res v Terminal True by (subst traverse.simps) simp
          with k show ?thesis by blast
        qed
      qed
    next
      case (Goto m)
      then have "true nd = Goto m \<or> false nd = Goto m" by (auto split: if_splits)
      from tree_edges [OF nd this] have m: "n < m" "m \<le> 37" "logic_tree m \<noteq> None" by auto
      have unfold: "traverse c n p = traverse c m p'"
        using nd res v Goto by (subst traverse.simps) (simp add: p'_def)
      from m have "38 - m < 38 - n" by simp
      from less.hyps [OF this m(3), of p']
      show ?thesis
      proof (elim disjE conjE exE)
        fix label steps
        assume t: "traverse c m p' = Some (Inr (label, p' @ steps))" and w: "walk_from c m steps"
        have "walk_from c n (record_step nd result v # steps)"
          using nd res v Goto w by simp
        moreover have "traverse c n p = Some (Inr (label, p @ record_step nd result v # steps))"
          using unfold t by (simp add: p'_def)
        ultimately show ?thesis by blast
      next
        fix k
        assume "traverse c m p' = Some (Inl TypeError)" "c k = Some None"
        with unfold show ?thesis by metis
      qed
    qed
  qed
qed

section \<open>The Signal Tree Evaluator: results\<close>

lemma tree_1: "logic_tree 1 \<noteq> None"
  by (simp add: logic_tree_def logic_tree_items_def)

text \<open>
  Claim C1. Over every cache that holds 85 for QQQ with window 9 and 45 for VIXY with
  window 50, \<^verbatim>\<open>execute_logic\<close> returns the label \<^verbatim>\<open>1.5x VIX Group (VXX, UVIX)\<close> and a
  decision path of exactly two steps: node 1 (QQQ, window 9, \<open>> 79\<close>, outcome true), then
  node 2 (VIXY, window 50, \<open>> 40\<close>, outcome true). And over every cache, a returned
  decision path is a walk from the entry node 1: its first step is the record of node 1,
  each further step is the record of the successor chosen before it, and it ends at the
  first step whose chosen successor is a terminal string.
\<close>

theorem execute_logic_vix_path:
  "(c (''QQQ'', 9) = Some (Some (Num 85)) \<and> c (''VIXY'', 50) = Some (Some (Num 45))
      \<longrightarrow> execute_logic c = Some (Inr (''1.5x VIX Group (VXX, UVIX)'',
            [\<lparr>step_ticker = ''QQQ'', step_window = 9, step_operator = ''>'',
              step_threshold = 79, step_result = True, step_current_rsi = Num 85\<rparr>,
             \<lparr>step_ticker = ''VIXY'', step_window = 50, step_operator = ''>'',
              step_threshold = 40, step_result = True, step_current_rsi = Num 45\<rparr>])))
   \<and> (execute_logic c = Some (Inr (label, path)) \<longrightarrow> walk_from c 1 path)"
proof (intro conjI impI)
  assume a: "c (''QQQ'', 9) = Some (Some (Num 85)) \<and> c (''VIXY'', 50) = Some (Some (Num 45))"
  show "execute_logic c = Some (Inr (''1.5x VIX Group (VXX, UVIX)'',
            [\<lparr>step_ticker = ''QQQ'', step_window = 9, step_operator = ''>'',
              step_threshold = 79, step_result = True, step_current_rsi = Num 85\<rparr>,
             \<lparr>step_ticker = ''VIXY'', step_window = 50, step_operator = ''>'',
              step_threshold = 40, step_result = True, step_current_rsi = Num 45\<rparr>]))"
    unfolding execute_logic_def
    apply (subst traverse.simps)
    apply (simp add: logic_tree_def logic_tree_items_def get_rsi_def a record_step_def)
    apply (subst traverse.simps)
    apply (simp add: logic_tree_def logic_tree_items_def get_rsi_def a record_step_def)
    done
next
  assume "execute_logic c = Some (Inr (label, path))"
  with traverse_cases [OF tree_1, of c "[]"] show "walk_from c 1 path"
    by (auto simp: execute_logic_def)
qed

theorem execute_logic_vix_path_witness:
  "vix_cache (''QQQ'', 9) = Some (Some (Num 85)) \<and> vix_cache (''VIXY'', 50) = Some (Some (Num 45))
   \<and> execute_logic vix_cache = Some (Inr (''1.5x VIX Group (VXX, UVIX)'',
            [\<lparr>step_ticker = ''QQQ'', step_window = 9, step_operator = ''>'',
              step_threshold = 79, step_result = True, step_current_rsi = Num 85\<rparr>,
             \<lparr>step_ticker = ''VIXY'', step_window = 50, step_operator = ''>'',
              step_threshold = 40, step_result = True, step_current_rsi = Num 45\<rparr>]))
   \<and> walk_from vix_cache 1
            [\<lparr>step_ticker = ''QQQ'', step_window = 9, step_operator = ''>'',
              step_threshold = 79, step_result = True, step_current_rsi = Num 85\<rparr>,
             \<lparr>step_ticker = ''VIXY'', step_window = 50, step_operator = ''>'',
              step_threshold = 40, step_result = True, step_current_rsi = Num 45\<rparr>]"
proof -
  have a: "vix_cache (''QQQ'', 9) = Some (Some (Num 85)) \<and> vix_cache (''VIXY'', 50) = Some (Some (Num 45))"
    by (simp add: vix_cache_def)
  from execute_logic_vix_path [of vix_cache "''1.5x VIX Group (VXX, UVIX)''"
            "[\<lparr>step_ticker = ''QQQ'', step_window = 9, step_operator = ''>'',
              step_threshold = 79, step_result = True, step_current_rsi = Num 85\<rparr>,
             \<lparr>step_ticker = ''VIXY'', step_window = 50, step_operator = ''>'',
              step_threshold = 40, step_result = True, step_current_rsi = Num 45\<rparr>]"] a
  show ?thesis by blast
qed

text \<open>
  Claim C8, as amended. Over every cache the loop of \<^verbatim>\<open>execute_logic\<close> stops: the
  graph has no cycle and no dangling successor, so the call never runs forever and never
  fails on a missing node. When no entry of the cache is a stored \<^verbatim>\<open>None\<close> the call
  reaches a node whose chosen successor is a terminal string and returns a label and a
  path. (Over a stored \<^verbatim>\<open>None\<close> it can stop with \<^verbatim>\<open>TypeError\<close> instead.)
\<close>

theorem execute_logic_terminates:
  "(\<exists>r. execute_logic c = Some r)
   \<and> execute_logic c \<noteq> Some (Inl KeyError) \<and> execute_logic c \<noteq> Some (Inl IndexError)
   \<and> ((\<forall>k. c k \<noteq> Some None) \<longrightarrow> (\<exists>label path. execute_logic c = Some (Inr (label, path))))"
  using traverse_cases [OF tree_1, of c "[]"]
  by (auto simp: execute_logic_def)

theorem execute_logic_terminates_witness:
  "(\<forall>k. all_zero_cache k \<noteq> Some None)
   \<and> (\<exists>label path. execute_logic all_zero_cache = Some (Inr (label, path)))"
  using execute_logic_terminates [of all_zero_cache] by (simp add: all_zero_cache_def)

text \<open>
  The claim as stated, that the call returns over every cache, fails where the first node
  reads a stored \<^verbatim>\<open>None\<close>: the comparison raises \<^verbatim>\<open>TypeError\<close>.
\<close>

theorem execute_logic_unavailable_raises:
  "execute_logic qqq_unavailable_cache = Some (Inl TypeError)"
  unfolding execute_logic_def
  by (subst traverse.simps) (simp add: logic_tree_def logic_tree_items_def get_rsi_def qqq_unavailable_cache_def)

text \<open>One turn of the loop at a node whose comparison succeeds.\<close>

lemma traverse_unfold:
  assumes "logic_tree n = Some nd" "condition nd c = Inr result"
    "get_rsi c (ticker nd) (window nd) = Some v"
  shows "traverse c n p =
     (case (if result then true nd else false nd) of
        Terminal s \<Rightarrow>
          if s = ''SPECIAL_LOGIC''
          then (case execute_special_logic_35 c of
                  Inl e \<Rightarrow> Some (Inl e)
                | Inr final_result \<Rightarrow> Some (Inr (final_result, p @ [record_step nd result v])))
          else Some (Inr (s, p @ [record_step nd result v]))
      | Goto m \<Rightarrow> traverse c m (p @ [record_step nd result v]))"
  using assms
  by (subst traverse.simps) (cases "if result then true nd else false nd"; simp add: Let_def)

text \<open>
  Claim C3. At a decision node whose \<open>(ticker, window)\<close> key is absent from the cache,
  the lookup returns \<open>0\<close> instead of failing, the node's comparison is the comparison of
  \<open>0\<close> with the threshold, and the loop records \<open>0\<close> as the observed value and goes on
  to the successor that this outcome chooses.
\<close>

theorem missing_entry_is_zero:
  assumes "logic_tree n = Some nd" and "c (ticker nd, window nd) = None"
  shows "get_rsi c (ticker nd) (window nd) = Some (Num 0)
    \<and> condition nd c = Inr (if operator nd = ''>'' then 0 > threshold nd else 0 < threshold nd)
    \<and> (let result = (if operator nd = ''>'' then 0 > threshold nd else 0 < threshold nd)
       in traverse c n p =
         (case (if result then true nd else false nd) of
            Terminal s \<Rightarrow>
              if s = ''SPECIAL_LOGIC''
              then (case execute_special_logic_35 c of
                      Inl e \<Rightarrow> Some (Inl e)
                    | Inr final_result \<Rightarrow>
                        Some (Inr (final_result, p @ [record_step nd result (Num 0)])))
              else Some (Inr (s, p @ [record_step nd result (Num 0)]))
          | Goto m \<Rightarrow> traverse c m (p @ [record_step nd result (Num 0)])))"
proof -
  from assms(2) have g: "get_rsi c (ticker nd) (window nd) = Some (Num 0)"
    by (simp add: get_rsi_def)
  have cnd: "condition nd c = Inr (if operator nd = ''>'' then 0 > threshold nd else 0 < threshold nd)"
    using tree_condition [OF assms(1), of c] g by simp
  from traverse_unfold [OF assms(1) cnd g] g cnd show ?thesis by (simp add: Let_def)
qed

theorem missing_entry_is_zero_witness:
  "logic_tree 1 = Some \<lparr>condition = (\<lambda>rsi_cache. py_gt (get_rsi rsi_cache ''QQQ'' 9) 79),
         ticker = ''QQQ'', window = 9, threshold = 79, operator = ''>'',
         true = Goto 2, false = Goto 3\<rparr>
   \<and> Map.empty (''QQQ'', 9 :: int) = (None :: pyfloat option option)
   \<and> get_rsi Map.empty ''QQQ'' 9 = Some (Num 0)
   \<and> py_gt (get_rsi Map.empty ''QQQ'' 9) 79 = Inr False"
proof -
  have 1: "logic_tree 1 = Some \<lparr>condition = (\<lambda>rsi_cache. py_gt (get_rsi rsi_cache ''QQQ'' 9) 79),
         ticker = ''QQQ'', window = 9, threshold = 79, operator = ''>'',
         true = Goto 2, false = Goto 3\<rparr>"
    by (simp add: logic_tree_def logic_tree_items_def)
  from missing_entry_is_zero [OF 1, of Map.empty] 1 show ?thesis by simp
qed

text \<open>The run over a cache whose values are all \<open>0\<close>, absent keys included.\<close>

lemma all_zero_run:
  assumes "\<forall>k. c k = None \<or> c k = Some (Some (Num 0))"
  shows "execute_logic c = Some (Inr (''SOXL'', all_zero_path))"
proof -
  have g: "get_rsi c t w = Some (Num 0)" for t w
    using assms [rule_format, of "(t, w)"] by (auto simp: get_rsi_def)
  show ?thesis
    unfolding execute_logic_def all_zero_path_def
    apply (subst traverse.simps, simp add: logic_tree_def logic_tree_items_def g record_step_def)+
    done
qed

section \<open>The call as a program: results\<close>

text \<open>No turn of the loop assigns to a global.\<close>

lemma loop_iteration_globs: "globs (snd (loop_iteration s)) = globs s"
  by (simp add: loop_iteration_def Let_def split: option.splits sum.splits next_step.splits)

text \<open>
  The loop on the frame does what the recursion on the cache, the node and the path
  does: it stops, with the same exception or with the same label and the same path in
  \<^verbatim>\<open>decision_path\<close>, and the globals are then what they were. The induction is on the
  distance of \<^verbatim>\<open>current_id\<close> from the greatest node id.
\<close>

lemma run_loop_traverse:
  "\<exists>s'. globs s' = globs s
     \<and> (case traverse (rsi_cache (globs s)) (current_id s) (decision_path s) of
          None \<Rightarrow> False
        | Some (Inl e) \<Rightarrow> run_loop s = Some (Inl e, s')
        | Some (Inr (final_result, path)) \<Rightarrow>
            run_loop s = Some (Inr final_result, s') \<and> decision_path s' = path)"
proof (induction "38 - current_id s" arbitrary: s rule: less_induct)
  case less
  define c where "c = rsi_cache (globs s)"
  show ?case
  proof (cases "loop_iteration s")
    case (Pair out s1)
    have g1: "globs s1 = globs s"
      using loop_iteration_globs [of s] Pair by simp
    show ?thesis
    proof (cases "logic_tree (current_id s)")
      case None
      then have "traverse (rsi_cache (globs s)) (current_id s) (decision_path s) = Some (Inl KeyError)"
        by (subst traverse.simps) simp
      moreover from None Pair have "out = Inl KeyError"
        by (simp add: loop_iteration_def Let_def)
      then have "run_loop s = Some (Inl KeyError, s1)"
        using Pair by (subst run_loop.simps) simp
      ultimately show ?thesis using g1 by auto
    next
      case (Some nd)
      show ?thesis
      proof (cases "condition nd (rsi_cache (globs s))")
        case (Inl e)
        then have "traverse (rsi_cache (globs s)) (current_id s) (decision_path s) = Some (Inl e)"
          using Some by (subst traverse.simps) simp
        moreover from Some Inl Pair have "out = Inl e"
          by (simp add: loop_iteration_def Let_def)
        then have "run_loop s = Some (Inl e, s1)"
          using Pair by (subst run_loop.simps) simp
        ultimately show ?thesis using g1 by auto
      next
        case (Inr result)
        show ?thesis
        proof (cases "get_rsi (rsi_cache (globs s)) (ticker nd) (window nd)")
          case None
          then have "traverse (rsi_cache (globs s)) (current_id s) (decision_path s) = Some (Inl TypeError)"
            using Some Inr by (subst traverse.simps) simp
          moreover from Some Inr None Pair have "out = Inl TypeError"
            by (simp add: loop_iteration_def Let_def)
          then have "run_loop s = Some (Inl TypeError, s1)"
            using Pair by (subst run_loop.simps) simp
          ultimately show ?thesis using g1 by auto
        next
          case v: (Some v)
          define p' where "p' = decision_path s @ [record_step nd result v]"
          note unf = traverse_unfold [OF Some Inr v, of "decision_path s"]
          show ?thesis
          proof (cases "if result then true nd else false nd")
            case (Terminal t)
            show ?thesis
            proof (cases "t = ''SPECIAL_LOGIC''")
              case False
              have "traverse (rsi_cache (globs s)) (current_id s) (decision_path s) = Some (Inr (t, p'))"
                using unf Terminal False by (simp add: p'_def)
              moreover from Some Inr v Terminal False Pair
              have o: "out = Inr (Some t)" and d: "decision_path s1 = p'"
                by (auto simp: loop_iteration_def Let_def p'_def)
              from o have "run_loop s = Some (Inr t, s1)"
                using Pair by (subst run_loop.simps) simp
              ultimately show ?thesis using g1 d by auto
            next
              case True
              show ?thesis
              proof (cases "execute_special_logic_35 (rsi_cache (globs s))")
                case (Inl e)
                have "traverse (rsi_cache (globs s)) (current_id s) (decision_path s) = Some (Inl e)"
                  using unf Terminal True Inl by simp
                moreover from Some Inr v Terminal True Inl Pair have "out = Inl e"
                  by (auto simp: loop_iteration_def Let_def)
                then have "run_loop s = Some (Inl e, s1)"
                  using Pair by (subst run_loop.simps) simp
                ultimately show ?thesis using g1 by auto
              next
                case r: (Inr final_result)
                have "traverse (rsi_cache (globs s)) (current_id s) (decision_path s)
                    = Some (Inr (final_result, p'))"
                  using unf Terminal True r by (simp add: p'_def)
                moreover from Some Inr v Terminal True r Pair
                have o: "out = Inr (Some final_result)" and d: "decision_path s1 = p'"
                  by (auto simp: loop_iteration_def Let_def p'_def)
                from o have "run_loop s = Some (Inr final_result, s1)"
                  using Pair by (subst run_loop.simps) simp
                ultimately show ?thesis using g1 d by auto
              qed
            qed
          next
            case (Goto m)
            then have "true nd = Goto m \<or> false nd = Goto m" by (auto split: if_splits)
            from tree_edges [OF Some this] have m: "current_id s < m" "m \<le> 37" by auto
            from Some Inr v Goto Pair
            have out: "out = Inr None" and s1: "current_id s1 = m" "decision_path s1 = p'"
              by (auto simp: loop_iteration_def Let_def p'_def)
            have t: "traverse (rsi_cache (globs s)) (current_id s) (decision_path s)
                = traverse (rsi_cache (globs s1)) (current_id s1) (decision_path s1)"
              using unf Goto s1 g1 by (simp add: p'_def)
            have r: "run_loop s = run_loop s1"
              using Pair out by (subst run_loop.simps) simp
            from m s1 have "38 - current_id s1 < 38 - current_id s" by simp
            from less.hyps [OF this] show ?thesis by (simp only: t r g1)
          qed
        qed
      qed
    qed
  qed
qed

lemma call_execute_logic_eq:
  "call_execute_logic g = map_option (\<lambda>r. (r, g)) (execute_logic (rsi_cache g))"
proof -
  let ?s = "\<lparr>globs = g, decision_path = [], current_id = 1, step_count = 0\<rparr>"
  from run_loop_traverse [of ?s] obtain s' where g: "globs s' = g"
    and c: "(case traverse (rsi_cache g) 1 [] of
          None \<Rightarrow> False
        | Some (Inl e) \<Rightarrow> run_loop ?s = Some (Inl e, s')
        | Some (Inr (final_result, path)) \<Rightarrow>
            run_loop ?s = Some (Inr final_result, s') \<and> decision_path s' = path)"
    by auto
  show ?thesis
  proof (cases "traverse (rsi_cache g) 1 []")
    case None
    with c show ?thesis by simp
  next
    case (Some r)
    show ?thesis
    proof (cases r)
      case (Inl e)
      with Some c g show ?thesis
        by (simp add: call_execute_logic_def execute_logic_def)
    next
      case (Inr lp)
      with Some c g show ?thesis
        by (cases lp) (simp add: call_execute_logic_def execute_logic_def)
    qed
  qed
qed

text \<open>
  Claim C7. A call of \<^verbatim>\<open>execute_logic\<close> stops and leaves the globals as it found
  them; so a second call, made on the globals that the first one left, returns what the
  first one returned: the same label and the same decision path, step for step, or the
  same exception. In particular, over a cache where every indicator value is \<open>0\<close>
  (absent keys included), every call returns the label \<^verbatim>\<open>SOXL\<close> with the same path of
  eleven steps.
\<close>

theorem execute_logic_deterministic:
  "(\<exists>r. call_execute_logic g = Some (r, g))
   \<and> (call_execute_logic g = Some (r, g') \<longrightarrow> g' = g \<and> call_execute_logic g' = Some (r, g'))
   \<and> ((\<forall>k. rsi_cache g k = None \<or> rsi_cache g k = Some (Some (Num 0)))
        \<longrightarrow> call_execute_logic g = Some (Inr (''SOXL'', all_zero_path), g))"
proof -
  from traverse_cases [OF tree_1, of "rsi_cache g" "[]"]
  obtain r0 where "execute_logic (rsi_cache g) = Some r0"
    by (auto simp: execute_logic_def)
  then show ?thesis
    using all_zero_run [of "rsi_cache g"]
    by (auto simp: call_execute_logic_eq)
qed

theorem execute_logic_deterministic_witness:
  "(\<forall>k. all_zero_cache k = None \<or> all_zero_cache k = Some (Some (Num 0)))
   \<and> call_execute_logic \<lparr>ticker_data = Map.empty, rsi_cache = all_zero_cache\<rparr>
     = Some (Inr (''SOXL'', all_zero_path), \<lparr>ticker_data = Map.empty, rsi_cache = all_zero_cache\<rparr>)"
proof -
  have z: "\<forall>k. rsi_cache \<lparr>ticker_data = Map.empty, rsi_cache = all_zero_cache\<rparr> k = None
     \<or> rsi_cache \<lparr>ticker_data = Map.empty, rsi_cache = all_zero_cache\<rparr> k = Some (Some (Num 0))"
    by (simp add: all_zero_cache_def)
  from execute_logic_deterministic [of "\<lparr>ticker_data = Map.empty, rsi_cache = all_zero_cache\<rparr>"
      "Inr (''SOXL'', all_zero_path)" "\<lparr>ticker_data = Map.empty, rsi_cache = all_zero_cache\<rparr>"] z
  show ?thesis by (simp add: all_zero_cache_def)
qed

section \<open>The Tie-break Resolver: results\<close>

text \<open>
  On candidates that all hold a number, the sort of the model is the stable ascending
  sort of the library.
\<close>

lemma key_lt_num:
  "snd p \<noteq> NaN \<Longrightarrow> snd q \<noteq> NaN \<Longrightarrow> key_lt (snd p) (snd q) \<longleftrightarrow> num_key p < num_key q"
  by (cases "snd p"; cases "snd q") (simp_all add: num_key_def)

lemma insort_rsi_stable:
  "\<forall>p\<in>set (x # ys). snd p \<noteq> NaN \<Longrightarrow> insort_rsi x ys = insort_key num_key x ys"
  by (induction ys) (auto simp: key_lt_num)

lemma sort_by_rsi_stable:
  "\<forall>p\<in>set xs. snd p \<noteq> NaN \<Longrightarrow> sort_by_rsi xs = sort_key num_key xs"
proof (induction xs)
  case Nil
  then show ?case by (simp add: sort_by_rsi_def)
next
  case (Cons x xs)
  then have "sort_by_rsi xs = sort_key num_key xs" by simp
  moreover from Cons.prems have "\<forall>p\<in>set (x # sort_key num_key xs). snd p \<noteq> NaN" by simp
  ultimately show ?case
    using insort_rsi_stable [of x "sort_key num_key xs"]
    by (simp add: sort_by_rsi_def sort_key_def)
qed

text \<open>
  Claim C4, as amended. Over every cache that holds, with window 9, the values SOXL = 20,
  TECL = 30, TQQQ = 20 and FNGU = 40, \<^verbatim>\<open>execute_special_logic_35\<close> sorts the candidates
  \<^verbatim>\<open>[SOXL, TECL, TQQQ, FNGU]\<close> ascending and stably, so that SOXL stays before TQQQ, takes
  the two lowest, and returns \<^verbatim>\<open>Buy SOXL and TQQQ (Bottom 2 RSIs: 20.00, 20.00)\<close>: the
  values are formatted to two decimal places.
\<close>

theorem tie_break_label:
  assumes "c (''SOXL'', 9) = Some (Some (Num 20))" and "c (''TECL'', 9) = Some (Some (Num 30))"
    and "c (''TQQQ'', 9) = Some (Some (Num 20))" and "c (''FNGU'', 9) = Some (Some (Num 40))"
  shows "collect_rsi c tickers_to_check []
      = Inr [(''SOXL'', Num 20), (''TECL'', Num 30), (''TQQQ'', Num 20), (''FNGU'', Num 40)]
    \<and> sort_by_rsi [(''SOXL'', Num 20), (''TECL'', Num 30), (''TQQQ'', Num 20), (''FNGU'', Num 40)]
      = [(''SOXL'', Num 20), (''TQQQ'', Num 20), (''TECL'', Num 30), (''FNGU'', Num 40)]
    \<and> execute_special_logic_35 c = Inr ''Buy SOXL and TQQQ (Bottom 2 RSIs: 20.00, 20.00)''"
  using assms
  by (simp add: execute_special_logic_35_def tickers_to_check_def get_rsi_def sort_by_rsi_def
      format_2f_real_def round_half_even_def string_of_nat.simps digit_char_def)

theorem tie_break_label_witness:
  "tie_cache (''SOXL'', 9) = Some (Some (Num 20)) \<and> tie_cache (''TECL'', 9) = Some (Some (Num 30))
   \<and> tie_cache (''TQQQ'', 9) = Some (Some (Num 20)) \<and> tie_cache (''FNGU'', 9) = Some (Some (Num 40))
   \<and> execute_special_logic_35 tie_cache = Inr ''Buy SOXL and TQQQ (Bottom 2 RSIs: 20.00, 20.00)''"
  using tie_break_label [of tie_cache] by (simp add: tie_cache_def)

text \<open>
  The claim as stated has the values formatted to one decimal place; the label the code
  returns is not that string.
\<close>

theorem tie_break_one_decimal_counterexample:
  "execute_special_logic_35 tie_cache \<noteq> Inr ''Buy SOXL and TQQQ (Bottom 2 RSIs: 20.0, 20.0)''"
  by (simp add: execute_special_logic_35_def tickers_to_check_def get_rsi_def sort_by_rsi_def
      format_2f_real_def round_half_even_def string_of_nat.simps digit_char_def tie_cache_def)

section \<open>The Notification Policy: results\<close>

text \<open>
  Claim C2, as amended. \<^verbatim>\<open>should_notify\<close> applies four rules in order. Without a prior
  record it returns true with the reason \<^verbatim>\<open>First run ever\<close>. Otherwise, when the date of
  the record (the empty string if it has none) differs from today's date in US Eastern
  time, it returns true with \<^verbatim>\<open>First check of trading day (<today>)\<close>, whether or not the
  label changed. Otherwise, when the current label differs from the recorded one, it
  returns true with \<^verbatim>\<open>Signal changed: '<recorded>' -> '<current>'\<close> (the arrow is U+2192).
  Otherwise it returns false with \<^verbatim>\<open>No change (still '<current>')\<close>.
\<close>

theorem should_notify_rules:
  "should_notify today current_signal None = (True, ''First run ever'')
   \<and> (dict_get st ''date'' (JStr []) \<noteq> JStr today \<longrightarrow>
        should_notify today current_signal (Some st)
          = (True, ''First check of trading day ('' @ today @ '')''))
   \<and> (dict_get st ''date'' (JStr []) = JStr today
        \<and> dict_get st ''signal'' (JStr []) \<noteq> JStr current_signal \<longrightarrow>
        should_notify today current_signal (Some st)
          = (True, ''Signal changed: '' @ quoted (py_str (dict_get st ''signal'' (JStr []))) @ '' ''
                   @ rightwards_arrow @ '' '' @ quoted current_signal))
   \<and> (dict_get st ''date'' (JStr []) = JStr today
        \<and> dict_get st ''signal'' (JStr []) = JStr current_signal \<longrightarrow>
        should_notify today current_signal (Some st)
          = (False, ''No change (still '' @ quoted current_signal @ '')''))"
  by (auto simp: should_notify_def Let_def)

theorem should_notify_rules_witness:
  "dict_get [(''signal'', JStr ''X''), (''date'', JStr ''2026-01-02'')] ''date'' (JStr []) \<noteq> JStr ''2026-01-05''
   \<and> should_notify ''2026-01-05'' ''X'' (Some [(''signal'', JStr ''X''), (''date'', JStr ''2026-01-02'')])
       = (True, ''First check of trading day (2026-01-05)'')
   \<and> dict_get [(''signal'', JStr ''X''), (''date'', JStr ''2026-01-05'')] ''date'' (JStr []) = JStr ''2026-01-05''
   \<and> dict_get [(''signal'', JStr ''X''), (''date'', JStr ''2026-01-05'')] ''signal'' (JStr []) \<noteq> JStr ''Y''
   \<and> fst (should_notify ''2026-01-05'' ''Y'' (Some [(''signal'', JStr ''X''), (''date'', JStr ''2026-01-05'')]))
   \<and> dict_get [(''signal'', JStr ''X''), (''date'', JStr ''2026-01-05'')] ''signal'' (JStr []) = JStr ''X''
   \<and> should_notify ''2026-01-05'' ''X'' (Some [(''signal'', JStr ''X''), (''date'', JStr ''2026-01-05'')])
       = (False, ''No change (still '' @ quoted ''X'' @ '')'')"
  using should_notify_rules [of "''2026-01-05''" "''X''" "[(''signal'', JStr ''X''), (''date'', JStr ''2026-01-02'')]"]
    should_notify_rules [of "''2026-01-05''" "''Y''" "[(''signal'', JStr ''X''), (''date'', JStr ''2026-01-05'')]"]
    should_notify_rules [of "''2026-01-05''" "''X''" "[(''signal'', JStr ''X''), (''date'', JStr ''2026-01-05'')]"]
  by (simp add: dict_get_def)

text \<open>
  The claim as stated gives the reasons as the bare lower-case phrases; the strings the
  code returns differ from them in each of the four rules.
\<close>

theorem should_notify_reasons_counterexample:
  "should_notify ''2026-01-05'' ''X'' None \<noteq> (True, ''first run ever'')
   \<and> should_notify ''2026-01-05'' ''X'' (Some [(''signal'', JStr ''X''), (''date'', JStr ''2026-01-02'')])
       \<noteq> (True, ''first check of trading day'')
   \<and> should_notify ''2026-01-05'' ''Y'' (Some [(''signal'', JStr ''X''), (''date'', JStr ''2026-01-05'')])
       \<noteq> (True, ''signal changed'')
   \<and> should_notify ''2026-01-05'' ''X'' (Some [(''signal'', JStr ''X''), (''date'', JStr ''2026-01-05'')])
       \<noteq> (False, ''no change'')"
  by (simp add: should_notify_def dict_get_def quoted_def rightwards_arrow_def)

section \<open>The state manager: results\<close>

text \<open>
  Claim C9. A failure of the state I/O does not become a failure of the run. Whatever
  exception is raised inside \<^verbatim>\<open>read_state\<close>, the call prints it and returns \<^verbatim>\<open>None\<close>,
  which \<^verbatim>\<open>main\<close> treats as no prior record: the notification is decided with the reason
  \<^verbatim>\<open>First run ever\<close>, the run returns the decision and \<^verbatim>\<open>lambda_handler\<close> answers with
  status 200. Whatever exception is raised inside \<^verbatim>\<open>write_state\<close>, the call prints it
  and returns normally, having stored nothing. Neither call ever raises; so once step 4
  has decided on the notification, the run returns the decision, whatever the write did,
  and \<^verbatim>\<open>lambda_handler\<close> answers with status 200.
\<close>

theorem state_io_failures_do_not_propagate:
  "(read_state_try e = Inl x \<longrightarrow>
      read_state e = (Inr PyNone, [warning_sign @ ''  Could not read state: '' @ x])
      \<and> main_step_4 e today signal = Inr (True, ''First run ever'')
      \<and> main_steps_4_to_6 e today signal delivered = Inr signal
      \<and> lambda_handler (main_steps_4_to_6 e today signal delivered) = (200, Inr signal))
   \<and> (write_state_try e signal notified = Inl y \<longrightarrow>
      write_state e signal notified
        = (Inr (), None, [warning_sign @ ''  Could not write state: '' @ y]))
   \<and> (\<forall>z. fst (read_state e) \<noteq> Inl z) \<and> (\<forall>z. fst (write_state e signal notified) \<noteq> Inl z)
   \<and> (main_step_4 e today signal = Inr (notify, reason) \<longrightarrow>
      main_steps_4_to_6 e today signal delivered = Inr signal
      \<and> lambda_handler (main_steps_4_to_6 e today signal delivered) = (200, Inr signal))"
  by (auto simp: read_state_def write_state_def main_step_4_def main_steps_4_to_6_def
      call_should_notify_def lambda_handler_def should_notify_def split: sum.splits prod.splits)

theorem state_io_failures_do_not_propagate_witness:
  "read_state_try failing_env = Inl ''Permission denied''
   \<and> read_state failing_env
       = (Inr PyNone, [warning_sign @ ''  Could not read state: '' @ ''Permission denied''])
   \<and> main_step_4 failing_env ''2026-01-05'' ''SOXL'' = Inr (True, ''First run ever'')
   \<and> write_state_try failing_env ''SOXL'' False = Inl ''No space left on device''
   \<and> write_state failing_env ''SOXL'' False
       = (Inr (), None, [warning_sign @ ''  Could not write state: '' @ ''No space left on device''])
   \<and> lambda_handler (main_steps_4_to_6 failing_env ''2026-01-05'' ''SOXL'' False) = (200, Inr ''SOXL'')"
proof -
  have r: "read_state_try failing_env = Inl ''Permission denied''"
    by (simp add: read_state_try_def failing_env_def)
  have w: "write_state_try failing_env ''SOXL'' False = Inl ''No space left on device''"
    by (simp add: write_state_try_def failing_env_def)
  from state_io_failures_do_not_propagate [where e = failing_env and x = "''Permission denied''"
      and today = "''2026-01-05''" and signal = "''SOXL''" and delivered = False
      and notified = False and y = "''No space left on device''"
      and notify = True and reason = "''First run ever''"] r w
  show ?thesis by blast
qed

text \<open>
  A state that was read without failure but is no dict is another matter: the run then
  fails in \<^verbatim>\<open>should_notify\<close>, outside the state manager.
\<close>

lemma non_dict_state_fails:
  "read_state list_state_env = (Inr PyOther, [])
   \<and> main_steps_4_to_6 list_state_env ''2026-01-05'' ''SOXL'' False = Inl AttributeError
   \<and> fst (lambda_handler (main_steps_4_to_6 list_state_env ''2026-01-05'' ''SOXL'' False)) = 500"
  by (simp add: read_state_def read_state_try_def list_state_env_def main_steps_4_to_6_def
      main_step_4_def call_should_notify_def lambda_handler_def)

section \<open>Unavailable indicators\<close>

lemma dropna_nums: "dropna (map (\<lambda>i. Num (f i)) xs) = map f xs"
  by (induction xs) simp_all

text \<open>The first loop runs through when every present ticker gets a 9-day value.\<close>

lemma rsi_9_loop_passes:
  assumes "\<forall>u\<in>set ts. \<forall>cl. td u = Some cl \<longrightarrow> calculate_rsi_sma (dropna cl) 9 \<noteq> None"
  shows "fst (rsi_9_loop td ts c) = None"
  using assms
proof (induction ts arbitrary: c)
  case Nil
  then show ?case by simp
next
  case (Cons u ts)
  show ?case
  proof (cases "td u")
    case None
    with Cons show ?thesis by simp
  next
    case (Some cl)
    with Cons.prems obtain v where "calculate_rsi_sma (dropna cl) 9 = Some v" by auto
    with Some Cons show ?thesis by (simp add: Let_def)
  qed
qed

text \<open>
  At the first present ticker whose 9-day value is \<^verbatim>\<open>None\<close>, the loop stores the
  \<^verbatim>\<open>None\<close> and then raises.
\<close>

lemma rsi_9_loop_stores_None:
  assumes "\<forall>u\<in>set pre. \<forall>cl. td u = Some cl \<longrightarrow> calculate_rsi_sma (dropna cl) 9 \<noteq> None"
    and "td t = Some closes" and "calculate_rsi_sma (dropna closes) 9 = None"
  shows "fst (rsi_9_loop td (pre @ t # post) c) = Some TypeError
    \<and> snd (rsi_9_loop td (pre @ t # post) c) (t, 9) = Some None"
  using assms(1)
proof (induction pre arbitrary: c)
  case Nil
  from assms(2,3) show ?case by (simp add: Let_def)
next
  case (Cons u pre)
  show ?case
  proof (cases "td u")
    case None
    with Cons show ?thesis by simp
  next
    case (Some cl)
    with Cons.prems obtain v where "calculate_rsi_sma (dropna cl) 9 = Some v" by auto
    with Some Cons show ?thesis by (simp add: Let_def)
  qed
qed

lemma stored_none_lookup: "c (t, w) = Some None \<Longrightarrow> get_rsi c t w = None"
  by (simp add: get_rsi_def)

text \<open>
  Claim C10. When \<^verbatim>\<open>calculate_rsi_sma\<close> returns \<^verbatim>\<open>None\<close> for a pair that
  \<^verbatim>\<open>calculate_all_rsi\<close> computes, the \<^verbatim>\<open>None\<close> is still stored in the cache under that
  key (and the print that follows raises \<^verbatim>\<open>TypeError\<close>). This holds for the 9-day pair
  of each ticker that the first loop reaches, that is, when no present ticker before it
  in \<^verbatim>\<open>TICKERS\<close> came out as \<^verbatim>\<open>None\<close>; and for the pairs \<open>(VIXY, 50)\<close> and
  \<open>(VIXY, 60)\<close>, which are computed when the first loop has run through. For example, a
  VIXY series of exactly 60 closes gives \<^verbatim>\<open>None\<close> for the 60-day window. For an entry
  that is present but \<^verbatim>\<open>None\<close>, \<^verbatim>\<open>get_rsi\<close> returns the stored \<^verbatim>\<open>None\<close>, not the
  default \<open>0\<close>, and a decision node over that entry applies its comparison to
  \<^verbatim>\<open>None\<close>, which raises \<^verbatim>\<open>TypeError\<close> and ends the traversal: the missing-means-0
  default does not cover unavailable indicators.
\<close>

theorem unavailable_is_stored_not_defaulted:
  "(TICKERS = pre @ t # post
      \<and> (\<forall>u\<in>set pre. \<forall>cl. td u = Some cl \<longrightarrow> calculate_rsi_sma (dropna cl) 9 \<noteq> None)
      \<and> td t = Some closes \<and> calculate_rsi_sma (dropna closes) 9 = None
     \<longrightarrow> snd (calculate_all_rsi td c) (t, 9) = Some None
       \<and> fst (calculate_all_rsi td c) = Some TypeError)
   \<and> ((\<forall>u\<in>set TICKERS. \<forall>cl. td u = Some cl \<longrightarrow> calculate_rsi_sma (dropna cl) 9 \<noteq> None)
      \<and> td ''VIXY'' = Some vixy \<and> (w = 50 \<or> w = 60)
      \<and> calculate_rsi_sma (dropna vixy) w = None
     \<longrightarrow> snd (calculate_all_rsi td c) (''VIXY'', w) = Some None
       \<and> fst (calculate_all_rsi td c) = Some TypeError)
   \<and> (length (dropna vixy) = 60 \<longrightarrow> calculate_rsi_sma (dropna vixy) 60 = None)
   \<and> (logic_tree n = Some nd \<and> c' (ticker nd, window nd) = Some None \<longrightarrow>
          get_rsi c' (ticker nd) (window nd) = None
        \<and> get_rsi c' (ticker nd) (window nd) \<noteq> Some (Num 0)
        \<and> condition nd c' = Inl TypeError
        \<and> traverse c' n p = Some (Inl TypeError))"
proof (intro conjI impI)
  assume a: "TICKERS = pre @ t # post
      \<and> (\<forall>u\<in>set pre. \<forall>cl. td u = Some cl \<longrightarrow> calculate_rsi_sma (dropna cl) 9 \<noteq> None)
      \<and> td t = Some closes \<and> calculate_rsi_sma (dropna closes) 9 = None"
  then have "fst (rsi_9_loop td TICKERS c) = Some TypeError
    \<and> snd (rsi_9_loop td TICKERS c) (t, 9) = Some None"
    using rsi_9_loop_stores_None [of pre td t closes post c] by simp
  then show "snd (calculate_all_rsi td c) (t, 9) = Some None"
    and "fst (calculate_all_rsi td c) = Some TypeError"
    by (cases "rsi_9_loop td TICKERS c"; simp add: calculate_all_rsi_def)+
next
  assume a: "(\<forall>u\<in>set TICKERS. \<forall>cl. td u = Some cl \<longrightarrow> calculate_rsi_sma (dropna cl) 9 \<noteq> None)
      \<and> td ''VIXY'' = Some vixy \<and> (w = 50 \<or> w = 60)
      \<and> calculate_rsi_sma (dropna vixy) w = None"
  then have "fst (rsi_9_loop td TICKERS c) = None"
    using rsi_9_loop_passes [of TICKERS td c] by blast
  then obtain c1 where "rsi_9_loop td TICKERS c = (None, c1)"
    by (cases "rsi_9_loop td TICKERS c") auto
  with a show "snd (calculate_all_rsi td c) (''VIXY'', w) = Some None"
    and "fst (calculate_all_rsi td c) = Some TypeError"
    by (auto simp: calculate_all_rsi_def Let_def)
next
  assume "length (dropna vixy) = 60"
  then show "calculate_rsi_sma (dropna vixy) 60 = None"
    by (simp add: calculate_rsi_sma_None_iff)
next
  assume a: "logic_tree n = Some nd \<and> c' (ticker nd, window nd) = Some None"
  then show g: "get_rsi c' (ticker nd) (window nd) = None"
    by (simp add: stored_none_lookup)
  then show "get_rsi c' (ticker nd) (window nd) \<noteq> Some (Num 0)" by simp
  from a g show cnd: "condition nd c' = Inl TypeError"
    using tree_condition [of n nd c'] by simp
  from a cnd show "traverse c' n p = Some (Inl TypeError)"
    by (subst traverse.simps) simp
qed

theorem unavailable_is_stored_not_defaulted_witness:
  "short_qqq_data ''QQQ'' = Some [Num 100, Num 102, Num 101]
   \<and> calculate_rsi_sma (dropna [Num 100, Num 102, Num 101]) 9 = None
   \<and> snd (calculate_all_rsi short_qqq_data Map.empty) (''QQQ'', 9) = Some None
   \<and> vixy_60_data ''VIXY'' = Some (map (\<lambda>i. Num (real i)) [1..<61])
   \<and> length (dropna (map (\<lambda>i. Num (real i)) [1..<61])) = 60
   \<and> calculate_rsi_sma (dropna (map (\<lambda>i. Num (real i)) [1..<61])) 60 = None
   \<and> snd (calculate_all_rsi vixy_60_data Map.empty) (''VIXY'', 60) = Some None
   \<and> get_rsi (snd (calculate_all_rsi vixy_60_data Map.empty)) ''VIXY'' 60 = None
   \<and> traverse (snd (calculate_all_rsi vixy_60_data Map.empty)) 5 [] = Some (Inl TypeError)"
proof -
  let ?vixy = "map (\<lambda>i. Num (real i)) [1..<61]"
  let ?c60 = "snd (calculate_all_rsi vixy_60_data Map.empty)"
  have q1: "TICKERS = [] @ ''QQQ'' # tl TICKERS" by (simp add: TICKERS_def)
  have q2: "short_qqq_data ''QQQ'' = Some [Num 100, Num 102, Num 101]"
    by (simp add: short_qqq_data_def)
  have q3: "calculate_rsi_sma (dropna [Num 100, Num 102, Num 101]) 9 = None"
    by (simp add: calculate_rsi_sma_None_iff)
  have v1: "vixy_60_data ''VIXY'' = Some ?vixy"
    by (simp add: vixy_60_data_def)
  have v2: "length (dropna ?vixy) = 60"
    by (simp add: dropna_nums)
  have v3: "\<forall>u\<in>set TICKERS. \<forall>cl. vixy_60_data u = Some cl \<longrightarrow> calculate_rsi_sma (dropna cl) 9 \<noteq> None"
    by (auto simp: vixy_60_data_def dropna_nums calculate_rsi_sma_None_iff split: if_splits)
  define nd where "nd = \<lparr>condition = (\<lambda>rsi_cache. py_gt (get_rsi rsi_cache ''VIXY'' 60) 40),
         ticker = ''VIXY'', window = 60, threshold = 40, operator = ''>'',
         true = Terminal ''1.5x VIX Group (VXX, UVIX)'', false = Goto 6\<rparr>"
  have d: "logic_tree 5 = Some nd"
    by (simp add: logic_tree_def logic_tree_items_def nd_def)
  have k: "ticker nd = ''VIXY''" "window nd = 60"
    by (simp_all add: nd_def)
  note i1 = unavailable_is_stored_not_defaulted [where pre = "[]" and t = "''QQQ''"
      and post = "tl TICKERS" and td = short_qqq_data and closes = "[Num 100, Num 102, Num 101]"
      and c = Map.empty]
  note i2 = unavailable_is_stored_not_defaulted [where td = vixy_60_data and vixy = ?vixy
      and w = 60 and c = Map.empty and n = 5 and nd = nd and c' = ?c60 and p = "[]"]
  from i1 q1 q2 q3 have s1: "snd (calculate_all_rsi short_qqq_data Map.empty) (''QQQ'', 9) = Some None"
    by simp
  from i2 v2 have n60: "calculate_rsi_sma (dropna ?vixy) 60 = None" by blast
  with i2 v1 v3 have s2: "?c60 (''VIXY'', 60) = Some None" by blast
  with i2 d k have "get_rsi ?c60 ''VIXY'' 60 = None" "traverse ?c60 5 [] = Some (Inl TypeError)"
    by auto
  with q2 q3 s1 v1 v2 n60 s2 show ?thesis by blast
qed

end
